theory Spec2Isabelle
  imports Main
begin

section \<open>Errors and documents\<close>

text \<open>
  A thrown value is either a plain JavaScript \<^verbatim>\<open>Error\<close> (its message) or an error of
  the Firebase SDK (its \<^verbatim>\<open>code\<close> and its message). Only the latter has a code.
\<close>

datatype error = Error string | FirebaseError string string

fun error_code :: "error \<Rightarrow> string option" where
  "error_code (Error m) = None"
| "error_code (FirebaseError c m) = Some c"

fun error_message :: "error \<Rightarrow> string" where
  "error_message (Error m) = m"
| "error_message (FirebaseError c m) = m"

datatype SubscriptionStatus = free | premium_monthly | premium_annual

text \<open>
  \<^verbatim>\<open>UserProfileData\<close> of firestoreService.ts. The field \<^verbatim>\<open>id\<close> is \<open>profile_id\<close> here;
  \<^verbatim>\<open>credits\<close> is a JavaScript number that only ever holds integers in these flows;
  a timestamp is a point of a linear clock.
\<close>

record UserProfileData =
  profile_id :: string
  email :: "string option"
  name :: "string option"
  credits :: int
  subscriptionStatus :: SubscriptionStatus
  stripeCustomerId :: "string option"
  createdAt :: nat
  updatedAt :: nat

datatype GenerationStatus = pending | processing | completed | failed

text \<open>
  The settings bag the image page stores with a record. The edit intensity of the slider
  (a float that no branch reads) is not carried.
\<close>

datatype settings =
    TextToImageSettings string int int
  | ImageToImageSettings "string option" int

text \<open>
  The object the image page hands to \<^verbatim>\<open>addGeneration\<close>, with the fields
  \<^verbatim>\<open>addGenerationRecord\<close> adds (\<^verbatim>\<open>id\<close>, \<^verbatim>\<open>status\<close>, \<^verbatim>\<open>createdAt\<close>, \<^verbatim>\<open>updatedAt\<close>).
  \<^verbatim>\<open>result.imageUrls\<close> and \<^verbatim>\<open>result.apiPaths\<close> are flattened into two fields.
\<close>

record GenerationRecordData =
  gen_id :: "string option"
  userId :: string
  gen_type :: string
  prompt :: string
  negativePrompt :: "string option"
  gen_settings :: settings
  imageUrls :: "string list"
  apiPaths :: "string option list"
  cost :: int
  status :: "GenerationStatus option"
  gen_createdAt :: "nat option"
  gen_updatedAt :: "nat option"

section \<open>The Firebase services\<close>

text \<open>
  Firestore and Storage are not part of the sources: the code calls them through the
  Firebase SDK. The state they hold and the requests they receive are modelled here.

  Every request is appended to \<open>requests\<close>, so that "no write was issued" is a statement
  about that list. \<open>faults\<close> is the failure schedule of the network: the request issued
  when \<open>n\<close> requests have been issued before it is rejected with \<open>faults n\<close>, if any.
  \<open>clock\<close> is what \<^verbatim>\<open>Timestamp.now()\<close> reads; \<open>auto_ids\<close> is the SDK's generator of
  document ids and \<open>ids_used\<close> counts the ids it has handed out.
\<close>

datatype request =
    DocSet string string
  | DocGet string string
  | DocUpdate string string
  | Query string string
  | ObjectDelete string

record firebase =
  users :: "string \<rightharpoonup> UserProfileData"
  generations :: "(string \<times> GenerationRecordData) list"
  objects :: "string set"
  clock :: nat
  auto_ids :: "nat \<Rightarrow> string"
  ids_used :: nat
  requests :: "request list"
  faults :: "nat \<Rightarrow> error option"

text \<open>
  Modelled from the spec: the document store, which the sources only call (an opaque
  store with get, set and query operations, and one atomic increment). \<^verbatim>\<open>set\<close> writes
  the document, \<^verbatim>\<open>get\<close> reads it, \<^verbatim>\<open>update\<close> with an increment adds to the field and
  rejects when the document is missing. Each operation first issues its request, which
  the network may reject.
\<close>

definition issue :: "request \<Rightarrow> firebase \<Rightarrow> error option \<times> firebase" where
  "issue r fb = (faults fb (length (requests fb)), fb\<lparr>requests := requests fb @ [r]\<rparr>)"

definition users_set ::
  "string \<Rightarrow> UserProfileData \<Rightarrow> firebase \<Rightarrow> (error + unit) \<times> firebase" where
  "users_set uid p fb =
     (case issue (DocSet ''users'' uid) fb of
        (Some e, fb') \<Rightarrow> (Inl e, fb')
      | (None, fb') \<Rightarrow> (Inr (), fb'\<lparr>users := (users fb')(uid \<mapsto> p)\<rparr>))"

definition users_get ::
  "string \<Rightarrow> firebase \<Rightarrow> (error + UserProfileData option) \<times> firebase" where
  "users_get uid fb =
     (case issue (DocGet ''users'' uid) fb of
        (Some e, fb') \<Rightarrow> (Inl e, fb')
      | (None, fb') \<Rightarrow> (Inr (users fb' uid), fb'))"

text \<open>
  \<^verbatim>\<open>userRef.update({credits: FieldValue.increment(d), updatedAt: now})\<close>.
\<close>

definition users_update_increment ::
  "string \<Rightarrow> int \<Rightarrow> nat \<Rightarrow> firebase \<Rightarrow> (error + unit) \<times> firebase" where
  "users_update_increment uid d now fb =
     (case issue (DocUpdate ''users'' uid) fb of
        (Some e, fb') \<Rightarrow> (Inl e, fb')
      | (None, fb') \<Rightarrow>
          (case users fb' uid of
             None \<Rightarrow> (Inl (FirebaseError ''not-found'' ''No document to update''), fb')
           | Some p \<Rightarrow>
               (Inr (), fb'\<lparr>users := (users fb')(uid \<mapsto>
                                  p\<lparr>credits := credits p + d, updatedAt := now\<rparr>)\<rparr>)))"

fun doc_put :: "string \<Rightarrow> 'a \<Rightarrow> (string \<times> 'a) list \<Rightarrow> (string \<times> 'a) list" where
  "doc_put k v [] = [(k, v)]"
| "doc_put k v ((k', v') # ds) = (if k' = k then (k, v) # ds else (k', v') # doc_put k v ds)"

text \<open>
  The values of a record that can be \<^verbatim>\<open>undefined\<close> in the object the image page builds.
  The page always writes the keys \<^verbatim>\<open>negativePrompt\<close> and, for an edit,
  \<^verbatim>\<open>settings.originalImagePath\<close>, so \<open>None\<close> there is the key with the value
  \<^verbatim>\<open>undefined\<close>; so is a \<open>None\<close> among \<^verbatim>\<open>result.apiPaths\<close>.
\<close>

fun settings_undefined :: "settings \<Rightarrow> bool" where
  "settings_undefined (TextToImageSettings a n s) = False"
| "settings_undefined (ImageToImageSettings None s) = True"
| "settings_undefined (ImageToImageSettings (Some path) s) = False"

definition has_undefined :: "GenerationRecordData \<Rightarrow> bool" where
  "has_undefined r \<longleftrightarrow>
     negativePrompt r = None \<or> None \<in> set (apiPaths r) \<or> settings_undefined (gen_settings r)"

text \<open>
  \<^verbatim>\<open>recordRef.set(newRecord)\<close>. The SDK validates the data first and throws, before any
  request, when a value is \<^verbatim>\<open>undefined\<close>: the sources never set
  \<^verbatim>\<open>ignoreUndefinedProperties\<close>.
\<close>

definition generations_set ::
  "string \<Rightarrow> GenerationRecordData \<Rightarrow> firebase \<Rightarrow> (error + unit) \<times> firebase" where
  "generations_set rid r fb =
     (if has_undefined r then
        (Inl (FirebaseError ''invalid-argument'' ''Unsupported field value: undefined''), fb)
      else
        (case issue (DocSet ''generations'' rid) fb of
           (Some e, fb') \<Rightarrow> (Inl e, fb')
         | (None, fb') \<Rightarrow> (Inr (), fb'\<lparr>generations := doc_put rid r (generations fb')\<rparr>)))"

fun created :: "GenerationRecordData \<Rightarrow> nat" where
  "created r = (case gen_createdAt r of Some t \<Rightarrow> t | None \<Rightarrow> 0)"

text \<open>
  Modelled from the spec: the query engine of the document store, which the sources only
  call, for the query
  \<^verbatim>\<open>collection("generations").where("userId", "==", u).orderBy("createdAt", "desc").get()\<close>:
  all records of the owner, ordered by creation time, descending (documents without a
  creation time have no place in that order and are left out).
\<close>

definition generations_query ::
  "string \<Rightarrow> firebase \<Rightarrow> (error + GenerationRecordData list) \<times> firebase" where
  "generations_query u fb =
     (case issue (Query ''generations'' u) fb of
        (Some e, fb') \<Rightarrow> (Inl e, fb')
      | (None, fb') \<Rightarrow>
          (Inr (rev (sort_key created
                  (filter (\<lambda>r. userId r = u \<and> gen_createdAt r \<noteq> None)
                     (map snd (generations fb'))))), fb'))"

text \<open>
  Modelled from the spec: the delete of the object store, which the sources only call.
  It removes the object at the path, and rejects with the code
  \<^verbatim>\<open>storage/object-not-found\<close> when there is none.
\<close>

definition object_delete :: "string \<Rightarrow> firebase \<Rightarrow> (error + unit) \<times> firebase" where
  "object_delete path fb =
     (case issue (ObjectDelete path) fb of
        (Some e, fb') \<Rightarrow> (Inl e, fb')
      | (None, fb') \<Rightarrow>
          (if path \<in> objects fb' then (Inr (), fb'\<lparr>objects := objects fb' - {path}\<rparr>)
           else (Inl (FirebaseError ''storage/object-not-found'' ''Object does not exist''), fb')))"

section \<open>firestoreService.ts\<close>

definition createUserProfile ::
  "string \<Rightarrow> string option \<Rightarrow> string option \<Rightarrow> firebase \<Rightarrow> (error + unit) \<times> firebase" where
  "createUserProfile uid data_email data_name fb =
     (let now = clock fb;
          profileData = \<lparr>profile_id = uid,
                         email = data_email,
                         name = Some (case data_name of
                                        None \<Rightarrow> ''''
                                      | Some n \<Rightarrow> n),
                         credits = 10,
                         subscriptionStatus = free,
                         stripeCustomerId = None,
                         createdAt = now,
                         updatedAt = now\<rparr>
      in users_set uid profileData fb)"

definition getUserProfile ::
  "string \<Rightarrow> firebase \<Rightarrow> (error + UserProfileData option) \<times> firebase" where
  "getUserProfile uid fb = users_get uid fb"

definition deductCreditsFromUser ::
  "string \<Rightarrow> int \<Rightarrow> firebase \<Rightarrow> (error + unit) \<times> firebase" where
  "deductCreditsFromUser uid amountToDeduct fb =
     (if amountToDeduct \<le> 0 then (Inr (), fb)
      else users_update_increment uid (- amountToDeduct) (clock fb) fb)"

definition addGenerationRecord ::
  "GenerationRecordData \<Rightarrow> firebase \<Rightarrow> (error + string) \<times> firebase" where
  "addGenerationRecord generationData fb =
     (let now = clock fb;
          rid = auto_ids fb (ids_used fb);
          fb1 = fb\<lparr>ids_used := ids_used fb + 1\<rparr>;
          newRecord = generationData\<lparr>gen_id := Some rid,
                                     status := Some (case status generationData of
                                                       None \<Rightarrow> completed
                                                     | Some s \<Rightarrow> s),
                                     gen_createdAt := Some now,
                                     gen_updatedAt := Some now\<rparr>
      in case generations_set rid newRecord fb1 of
           (Inl e, fb2) \<Rightarrow> (Inl e, fb2)
         | (Inr u, fb2) \<Rightarrow> (Inr rid, fb2))"

definition getUserGenerations ::
  "string \<Rightarrow> firebase \<Rightarrow> (error + GenerationRecordData list) \<times> firebase" where
  "getUserGenerations u fb =
     (case generations_query u fb of
        (Inl e, fb') \<Rightarrow> (Inl e, fb')
      | (Inr docs, fb') \<Rightarrow> (if docs = [] then (Inr [], fb') else (Inr docs, fb')))"

section \<open>storageService.ts\<close>

definition deleteFileFromFirebase :: "string \<Rightarrow> firebase \<Rightarrow> (error + unit) \<times> firebase" where
  "deleteFileFromFirebase storagePath fb =
     (if storagePath = '''' then
        (Inl (Error ''Storage path is required to delete a file.''), fb)
      else
        (case object_delete storagePath fb of
           (Inr u, fb') \<Rightarrow> (Inr (), fb')
         | (Inl e, fb') \<Rightarrow>
             (if error_code e = Some ''storage/object-not-found'' then (Inr (), fb')
              else (Inl e, fb'))))"

section \<open>The client state and the page\<close>

record UserState =
  userProfile :: "UserProfileData option"
  user_isLoading :: bool
  user_error :: "error option"

record GenerationsState =
  gen_generations :: "GenerationRecordData list"
  gen_isLoading :: bool
  gen_error :: "error option"

text \<open>An item of \<^verbatim>\<open>generated_images\<close> or \<^verbatim>\<open>edited_images\<close> in a response of the backend.\<close>

record ApiGeneratedImageData =
  image_path :: string
  seed :: "int option"

record GeneratedImageDisplayData =
  display_id :: string
  src :: string
  alt :: string
  display_seed :: "int option"
  apiPath :: "string option"

text \<open>
  The two request bodies of the image page (\<^verbatim>\<open>ImageGenerationRequest\<close>:
  prompt, negative prompt, user id, n, size, seed; \<^verbatim>\<open>BodyEditImageWithPrompt\<close>: image
  file, prompt, user id, negative prompt, seed), and the parts of a response the page reads.
  A file is represented by its name.
\<close>

datatype http_request =
    GenerateImage string "string option" string int string "int option"
  | EditImageWithPrompt string string string "string option" "int option"

record response_body =
  detail :: "string option"
  generated_images :: "ApiGeneratedImageData list option"
  edited_images :: "ApiGeneratedImageData list option"
  original_image_path :: "string option"

record http_response =
  ok :: bool
  statusText :: string
  json :: "error + response_body"

text \<open>
  A notification is the template string the page builds, numbers left as numbers.
\<close>

datatype frag = Str string | Num int

datatype toast = ToastError "frag list" | ToastSuccess "frag list"

text \<open>
  Everything a handler of the page can read or change: the two zustand stores, the
  Firebase services, the React state of the page, and what it did to the outside
  (notifications, navigations, calls of the backend, in the order they were made).
\<close>

record world =
  user_store :: UserState
  generations_store :: GenerationsState
  firebase :: firebase
  negativePromptInput :: string
  aspectRatio :: string
  seedInput :: int
  numImages :: int
  generatedImages :: "GeneratedImageDisplayData list"
  uploadedImageFile :: "string option"
  editedImages :: "GeneratedImageDisplayData list"
  editNegativePrompt :: string
  editSeed :: int
  isLoading :: bool
  toasts :: "toast list"
  navigations :: "string list"
  http_calls :: "http_request list"

definition toast_error :: "frag list \<Rightarrow> world \<Rightarrow> world" where
  "toast_error m w = w\<lparr>toasts := toasts w @ [ToastError m]\<rparr>"

definition toast_success :: "frag list \<Rightarrow> world \<Rightarrow> world" where
  "toast_success m w = w\<lparr>toasts := toasts w @ [ToastSuccess m]\<rparr>"

definition navigate :: "string \<Rightarrow> world \<Rightarrow> world" where
  "navigate path w = w\<lparr>navigations := navigations w @ [path]\<rparr>"

definition set_user :: "(UserState \<Rightarrow> UserState) \<Rightarrow> world \<Rightarrow> world" where
  "set_user f w = w\<lparr>user_store := f (user_store w)\<rparr>"

definition set_generations :: "(GenerationsState \<Rightarrow> GenerationsState) \<Rightarrow> world \<Rightarrow> world" where
  "set_generations f w = w\<lparr>generations_store := f (generations_store w)\<rparr>"

section \<open>useUserStore\<close>

definition initializeNewUserProfile ::
  "string \<Rightarrow> string option \<Rightarrow> string option \<Rightarrow> world \<Rightarrow> (error + unit) \<times> world" where
  "initializeNewUserProfile uid data_email data_name w =
     (let w1 = set_user (\<lambda>s. s\<lparr>user_isLoading := True, user_error := None\<rparr>) w in
      case createUserProfile uid data_email data_name (firebase w1) of
        (Inl e, fb1) \<Rightarrow>
          (Inl e, set_user (\<lambda>s. s\<lparr>user_error := Some e, user_isLoading := False\<rparr>)
                    (w1\<lparr>firebase := fb1\<rparr>))
      | (Inr u, fb1) \<Rightarrow>
          (case getUserProfile uid fb1 of
             (Inl e, fb2) \<Rightarrow>
               (Inl e, set_user (\<lambda>s. s\<lparr>user_error := Some e, user_isLoading := False\<rparr>)
                         (w1\<lparr>firebase := fb2\<rparr>))
           | (Inr profile, fb2) \<Rightarrow>
               (Inr (), set_user (\<lambda>s. s\<lparr>userProfile := profile, user_isLoading := False\<rparr>)
                          (w1\<lparr>firebase := fb2\<rparr>))))"

text \<open>
  The updater both the optimistic step and the revert of \<^verbatim>\<open>decrementCredits\<close> pass to
  \<^verbatim>\<open>set\<close>: add \<open>d\<close> to the credits of the profile that is loaded then, if any.
\<close>

definition add_credits :: "int \<Rightarrow> UserState \<Rightarrow> UserState" where
  "add_credits d s =
     s\<lparr>userProfile := (case userProfile s of
                         Some p \<Rightarrow> Some (p\<lparr>credits := credits p + d\<rparr>)
                       | None \<Rightarrow> None)\<rparr>"

text \<open>
  \<^verbatim>\<open>decrementCredits\<close> in its two parts. \<open>decrementCredits_begin\<close> is the code before the
  \<^verbatim>\<open>try\<close> block: the check and the optimistic subtraction (it yields the profile it read).
  It runs when the function is called, before anything is awaited.
  \<open>decrementCredits_settle\<close> is the \<^verbatim>\<open>try\<close> block: the write, and the revert and the
  rethrow when the write is rejected.
\<close>

definition decrementCredits_begin :: "int \<Rightarrow> world \<Rightarrow> error + (UserProfileData \<times> world)" where
  "decrementCredits_begin amount w =
     (case userProfile (user_store w) of
        None \<Rightarrow> Inl (Error ''Insufficient credits or no user profile.'')
      | Some currentProfile \<Rightarrow>
          (if credits currentProfile < amount then
             Inl (Error ''Insufficient credits or no user profile.'')
           else Inr (currentProfile, set_user (add_credits (- amount)) w)))"

definition decrementCredits_settle ::
  "UserProfileData \<Rightarrow> int \<Rightarrow> world \<Rightarrow> (error + unit) \<times> world" where
  "decrementCredits_settle currentProfile amount w =
     (case deductCreditsFromUser (profile_id currentProfile) amount (firebase w) of
        (Inr u, fb') \<Rightarrow> (Inr (), w\<lparr>firebase := fb'\<rparr>)
      | (Inl e, fb') \<Rightarrow> (Inl e, set_user (add_credits amount) (w\<lparr>firebase := fb'\<rparr>)))"

definition decrementCredits :: "int \<Rightarrow> world \<Rightarrow> (error + unit) \<times> world" where
  "decrementCredits amount w =
     (case decrementCredits_begin amount w of
        Inl e \<Rightarrow> (Inl e, w)
      | Inr (currentProfile, w1) \<Rightarrow> decrementCredits_settle currentProfile amount w1)"

section \<open>useGenerationsStore\<close>

definition fetchUserGenerations :: "string \<Rightarrow> world \<Rightarrow> world" where
  "fetchUserGenerations u w =
     (let w1 = set_generations (\<lambda>s. s\<lparr>gen_isLoading := True, gen_error := None\<rparr>) w in
      case getUserGenerations u (firebase w1) of
        (Inr generationRecords, fb') \<Rightarrow>
          set_generations (\<lambda>s. s\<lparr>gen_generations := generationRecords, gen_isLoading := False\<rparr>)
            (w1\<lparr>firebase := fb'\<rparr>)
      | (Inl e, fb') \<Rightarrow>
          set_generations (\<lambda>s. s\<lparr>gen_error := Some e, gen_isLoading := False\<rparr>)
            (w1\<lparr>firebase := fb'\<rparr>))"

definition addGeneration :: "GenerationRecordData \<Rightarrow> world \<Rightarrow> string option \<times> world" where
  "addGeneration data w =
     (let w1 = set_generations (\<lambda>s. s\<lparr>gen_isLoading := True, gen_error := None\<rparr>) w in
      case addGenerationRecord data (firebase w1) of
        (Inr newRecordId, fb') \<Rightarrow>
          (Some newRecordId,
           set_generations (\<lambda>s. s\<lparr>gen_isLoading := False\<rparr>)
             (fetchUserGenerations (userId data) (w1\<lparr>firebase := fb'\<rparr>)))
      | (Inl e, fb') \<Rightarrow>
          (None, set_generations (\<lambda>s. s\<lparr>gen_error := Some e, gen_isLoading := False\<rparr>)
                   (w1\<lparr>firebase := fb'\<rparr>)))"

section \<open>ImageGeneratorPage.tsx\<close>

definition IMAGE_GENERATION_COST :: int where
  "IMAGE_GENERATION_COST = 1"

definition IMAGE_EDIT_COST :: int where
  "IMAGE_EDIT_COST = 1"

text \<open>
  \<^verbatim>\<open>String.prototype.trim\<close>, and the \<^verbatim>\<open>x || fallback\<close> of an optional string (the
  empty string is falsy). A character is a code point below 256 here; the white space
  of JavaScript in that range is tab, line feed, vertical tab, form feed, carriage
  return, space and the no-break space U+00A0.
\<close>

definition js_whitespace :: "char \<Rightarrow> bool" where
  "js_whitespace c \<longleftrightarrow>
     c = CHR 0x20 \<or> c = CHR 0x09 \<or> c = CHR 0x0A \<or> c = CHR 0x0B \<or> c = CHR 0x0C \<or> c = CHR 0x0D \<or>
     c = CHR 0xA0"

definition trim :: "string \<Rightarrow> string" where
  "trim s = rev (dropWhile js_whitespace (rev (dropWhile js_whitespace s)))"

fun or_default :: "string option \<Rightarrow> string \<Rightarrow> string" where
  "or_default None d = d"
| "or_default (Some s) d = (if s = [] then d else s)"

definition or_undefined :: "string \<Rightarrow> string option" where
  "or_undefined s = (if s = [] then None else Some s)"

definition setIsLoading :: "bool \<Rightarrow> world \<Rightarrow> world" where
  "setIsLoading b w = w\<lparr>isLoading := b\<rparr>"

definition setGeneratedImages :: "GeneratedImageDisplayData list \<Rightarrow> world \<Rightarrow> world" where
  "setGeneratedImages xs w = w\<lparr>generatedImages := xs\<rparr>"

definition setEditedImages :: "GeneratedImageDisplayData list \<Rightarrow> world \<Rightarrow> world" where
  "setEditedImages xs w = w\<lparr>editedImages := xs\<rparr>"

text \<open>
  A call of the backend through the typed client: the request is recorded, and the answer
  is what the backend \<open>brain\<close> gives (\<open>Inl\<close>: the call itself is rejected).
\<close>

definition call_brain ::
  "(http_request \<Rightarrow> error + http_response) \<Rightarrow> http_request \<Rightarrow> world
     \<Rightarrow> (error + http_response) \<times> world" where
  "call_brain brain req w = (brain req, w\<lparr>http_calls := http_calls w @ [req]\<rparr>)"

text \<open>
  The credit pre-check. A loaded profile always has its credits here, so the test for
  credits that are undefined is the test for a profile that is missing.
\<close>

definition checkCreditsAndProceed :: "int \<Rightarrow> world \<Rightarrow> bool \<times> world" where
  "checkCreditsAndProceed c w =
     (case userProfile (user_store w) of
        None \<Rightarrow>
          (False,
           navigate ''/login-page''
             (toast_error
                [Str ''User profile or credits not loaded. Please try again or re-login.''] w))
      | Some p \<Rightarrow>
          (if credits p < c then
             (False,
              toast_error [Str ''Insufficient credits. You need '', Num c,
                           Str '' credit(s) for this action. You have '', Num (credits p),
                           Str ''.''] w)
           else (True, w)))"

definition to_display ::
  "string \<Rightarrow> string \<Rightarrow> ApiGeneratedImageData \<Rightarrow> GeneratedImageDisplayData" where
  "to_display API_URL a item =
     \<lparr>display_id = image_path item,
      src = API_URL @ (if take 1 (image_path item) = ''/'' then image_path item
                       else ''/'' @ image_path item),
      alt = a,
      display_seed = seed item,
      apiPath = Some (image_path item)\<rparr>"

definition no_user_id :: "world \<Rightarrow> world" where
  "no_user_id w =
     navigate ''/login-page'' (toast_error [Str ''User ID not found. Please re-login.''] w)"

text \<open>
  The \<^verbatim>\<open>try\<close> block of \<^verbatim>\<open>handleTextToImageSubmit\<close>: the error it throws, if any, and the
  world it leaves. \<^verbatim>\<open>decrementCredits\<close> and \<^verbatim>\<open>addGeneration\<close> are called without
  \<^verbatim>\<open>await\<close>: a rejection of the first reaches no handler and the block goes on, so its
  result is dropped. The two calls work on different stores and different collections,
  and their requests are issued in the order of the calls, so they are run one after
  the other here.
\<close>

definition textToImage_try ::
  "string \<Rightarrow> (http_request \<Rightarrow> error + http_response) \<Rightarrow> string \<Rightarrow> UserProfileData \<Rightarrow> int
     \<Rightarrow> world \<Rightarrow> error option \<times> world" where
  "textToImage_try API_URL brain submittedPrompt p totalCost w =
     (let requestBody =
            GenerateImage submittedPrompt (or_undefined (negativePromptInput w)) (profile_id p)
              (numImages w) (aspectRatio w)
              (if seedInput w = 0 then None else Some (seedInput w))
      in case call_brain brain requestBody w of
        (Inl e, w1) \<Rightarrow> (Some e, w1)
      | (Inr response, w1) \<Rightarrow>
          (if \<not> ok response then
             (Some (Error (or_default
                             (case json response of
                                Inl e \<Rightarrow> Some (statusText response)
                              | Inr errorResult \<Rightarrow> detail errorResult)
                             ''Failed to generate image.'')), w1)
           else
             (case json response of
                Inl e \<Rightarrow> (Some e, w1)
              | Inr result \<Rightarrow>
                  (case generated_images result of
                     None \<Rightarrow> (Some (Error ''No images returned by API.''), w1)
                   | Some imgs \<Rightarrow>
                       (if length imgs = 0 then
                          (Some (Error ''No images returned by API.''), w1)
                        else
                          (let newDisplayImages = map (to_display API_URL submittedPrompt) imgs;
                               w2 = setGeneratedImages newDisplayImages w1;
                               w3 = snd (decrementCredits totalCost w2);
                               w4 = snd (addGeneration
                                           \<lparr>gen_id = None,
                                            userId = profile_id p,
                                            gen_type = ''text-to-image'',
                                            prompt = submittedPrompt,
                                            negativePrompt = or_undefined (negativePromptInput w),
                                            gen_settings =
                                              TextToImageSettings (aspectRatio w) (numImages w)
                                                (seedInput w),
                                            imageUrls = map src newDisplayImages,
                                            apiPaths = map apiPath newDisplayImages,
                                            cost = totalCost,
                                            status = None,
                                            gen_createdAt = None,
                                            gen_updatedAt = None\<rparr> w3)
                           in (None,
                               toast_success [Num (int (length newDisplayImages)),
                                              Str '' image(s) generated!''] w4)))))))"

definition handleTextToImageSubmit ::
  "string \<Rightarrow> (http_request \<Rightarrow> error + http_response) \<Rightarrow> string \<Rightarrow> world \<Rightarrow> world" where
  "handleTextToImageSubmit API_URL brain submittedPrompt w =
     (case userProfile (user_store w) of
        None \<Rightarrow> no_user_id w
      | Some p \<Rightarrow>
          (if profile_id p = [] then no_user_id w
           else
             (let totalCost = IMAGE_GENERATION_COST * numImages w in
              case checkCreditsAndProceed totalCost w of
                (False, w1) \<Rightarrow> w1
              | (True, w1) \<Rightarrow>
                  (if trim submittedPrompt = [] then
                     toast_error [Str ''Please enter a prompt.''] w1
                   else
                     (case textToImage_try API_URL brain submittedPrompt p totalCost
                             (setGeneratedImages [] (setIsLoading True w1)) of
                        (Some e, w2) \<Rightarrow>
                          setIsLoading False (toast_error [Str (error_message e)] w2)
                      | (None, w2) \<Rightarrow> setIsLoading False w2)))))"

text \<open>
  The \<^verbatim>\<open>try\<close> block of \<^verbatim>\<open>handleImageToImageSubmit\<close>. The preview of the original image
  (display only) is not carried.
\<close>

definition imageToImage_try ::
  "string \<Rightarrow> (http_request \<Rightarrow> error + http_response) \<Rightarrow> string \<Rightarrow> string \<Rightarrow> UserProfileData
     \<Rightarrow> world \<Rightarrow> error option \<times> world" where
  "imageToImage_try API_URL brain submittedEditPrompt image_file p w =
     (let requestPayload =
            EditImageWithPrompt image_file submittedEditPrompt (profile_id p)
              (or_undefined (editNegativePrompt w))
              (if editSeed w \<noteq> 0 then Some (editSeed w) else None)
      in case call_brain brain requestPayload w of
        (Inl e, w1) \<Rightarrow> (Some e, w1)
      | (Inr response, w1) \<Rightarrow>
          (if \<not> ok response then
             (Some (Error (or_default
                             (case json response of
                                Inl e \<Rightarrow> Some (statusText response)
                              | Inr errorResult \<Rightarrow> detail errorResult)
                             ''Failed to edit image.'')), w1)
           else
             (case json response of
                Inl e \<Rightarrow> (Some e, w1)
              | Inr result \<Rightarrow>
                  (case edited_images result of
                     None \<Rightarrow> (Some (Error ''No edited images returned by API.''), w1)
                   | Some imgs \<Rightarrow>
                       (if length imgs = 0 then
                          (Some (Error ''No edited images returned by API.''), w1)
                        else
                          (let newEditedImages =
                                 map (to_display API_URL submittedEditPrompt) imgs;
                               w2 = setEditedImages newEditedImages w1;
                               w3 = snd (decrementCredits
                                           (IMAGE_EDIT_COST * int (length newEditedImages)) w2);
                               w4 = snd (addGeneration
                                           \<lparr>gen_id = None,
                                            userId = profile_id p,
                                            gen_type = ''image-to-image'',
                                            prompt = submittedEditPrompt,
                                            negativePrompt = or_undefined (editNegativePrompt w),
                                            gen_settings =
                                              ImageToImageSettings (original_image_path result)
                                                (editSeed w),
                                            imageUrls = map src newEditedImages,
                                            apiPaths = map apiPath newEditedImages,
                                            cost = IMAGE_EDIT_COST * int (length newEditedImages),
                                            status = None,
                                            gen_createdAt = None,
                                            gen_updatedAt = None\<rparr> w3)
                           in (None,
                               toast_success [Num (int (length newEditedImages)),
                                              Str '' image(s) edited successfully!''] w4)))))))"

definition handleImageToImageSubmit ::
  "string \<Rightarrow> (http_request \<Rightarrow> error + http_response) \<Rightarrow> string \<Rightarrow> world \<Rightarrow> world" where
  "handleImageToImageSubmit API_URL brain submittedEditPrompt w =
     (case uploadedImageFile w of
        None \<Rightarrow> toast_error [Str ''Please upload an image to edit.''] w
      | Some image_file \<Rightarrow>
          (if trim submittedEditPrompt = [] then
             toast_error [Str ''Please enter a prompt to describe your edits.''] w
           else
             (case userProfile (user_store w) of
                None \<Rightarrow> no_user_id w
              | Some p \<Rightarrow>
                  (if profile_id p = [] then no_user_id w
                   else
                     (case checkCreditsAndProceed IMAGE_EDIT_COST w of
                        (False, w1) \<Rightarrow> w1
                      | (True, w1) \<Rightarrow>
                          (case imageToImage_try API_URL brain submittedEditPrompt image_file p
                                  (setEditedImages [] (setIsLoading True w1)) of
                             (Some e, w2) \<Rightarrow>
                               setIsLoading False (toast_error [Str (error_message e)] w2)
                           | (None, w2) \<Rightarrow> setIsLoading False w2))))))"

section \<open>Concrete states\<close>

text \<open>
  A user \<^verbatim>\<open>u1\<close> with a given balance, stored and loaded, a network with a given failure
  schedule, and a page asking for a given number of images.
\<close>

definition example_profile :: "int \<Rightarrow> UserProfileData" where
  "example_profile c =
     \<lparr>profile_id = ''u1'', email = Some ''u1@example.org'', name = Some ''U'', credits = c,
      subscriptionStatus = free, stripeCustomerId = None, createdAt = 7, updatedAt = 7\<rparr>"

definition example_firebase :: "int \<Rightarrow> (nat \<Rightarrow> error option) \<Rightarrow> firebase" where
  "example_firebase c f =
     \<lparr>users = [''u1'' \<mapsto> example_profile c],
      generations = [],
      objects = {''generations/image/u1/1_a.png''},
      clock = 100,
      auto_ids = (\<lambda>n. replicate (Suc n) CHR ''g''),
      ids_used = 0,
      requests = [],
      faults = f\<rparr>"

definition example_world :: "int \<Rightarrow> int \<Rightarrow> (nat \<Rightarrow> error option) \<Rightarrow> world" where
  "example_world c n f =
     \<lparr>user_store = \<lparr>userProfile = Some (example_profile c), user_isLoading = False,
                    user_error = None\<rparr>,
      generations_store = \<lparr>gen_generations = [], gen_isLoading = False, gen_error = None\<rparr>,
      firebase = example_firebase c f,
      negativePromptInput = [],
      aspectRatio = ''1024x1024'',
      seedInput = 0,
      numImages = n,
      generatedImages = [],
      uploadedImageFile = Some ''cat.png'',
      editedImages = [],
      editNegativePrompt = [],
      editSeed = 0,
      isLoading = False,
      toasts = [],
      navigations = [],
      http_calls = []\<rparr>"

text \<open>The same page with a negative prompt typed into both forms.\<close>

definition example_world_with_negative_prompt ::
  "int \<Rightarrow> int \<Rightarrow> (nat \<Rightarrow> error option) \<Rightarrow> world" where
  "example_world_with_negative_prompt c n f =
     (example_world c n f)\<lparr>negativePromptInput := ''blurry'', editNegativePrompt := ''blurry''\<rparr>"

text \<open>
  A response with ok status that carries the given images, numbered image paths, and two
  failure schedules of the network: never, and always.
\<close>

definition ok_response :: "ApiGeneratedImageData list \<Rightarrow> http_response" where
  "ok_response imgs =
     \<lparr>ok = True, statusText = ''OK'',
      json = Inr \<lparr>detail = None, generated_images = Some imgs, edited_images = Some imgs,
                 original_image_path = Some ''/uploads/cat.png''\<rparr>\<rparr>"

definition example_images :: "nat \<Rightarrow> ApiGeneratedImageData list" where
  "example_images k = map (\<lambda>i. \<lparr>image_path = replicate (Suc i) CHR ''p'', seed = None\<rparr>) [0..<k]"

definition no_faults :: "nat \<Rightarrow> error option" where
  "no_faults n = None"

definition offline :: "nat \<Rightarrow> error option" where
  "offline n = Some (FirebaseError ''unavailable'' ''The service is unavailable'')"

text \<open>A generation record of an owner, created at a given time, and a stored history.\<close>

definition example_record :: "string \<Rightarrow> string \<Rightarrow> nat \<Rightarrow> GenerationRecordData" where
  "example_record rid u t =
     \<lparr>gen_id = Some rid, userId = u, gen_type = ''text-to-image'', prompt = ''a cat'',
      negativePrompt = None, gen_settings = TextToImageSettings ''1024x1024'' 1 0,
      imageUrls = [], apiPaths = [], cost = 1, status = Some completed,
      gen_createdAt = Some t, gen_updatedAt = Some t\<rparr>"

definition example_history :: "(string \<times> GenerationRecordData) list" where
  "example_history =
     [(''a'', example_record ''a'' ''u1'' 20),
      (''b'', example_record ''b'' ''u2'' 50),
      (''c'', example_record ''c'' ''u1'' 40),
      (''d'', example_record ''d'' ''u1'' 20),
      (''e'', example_record ''e'' ''u1'' 30)]"

definition example_world_with_history :: "(nat \<Rightarrow> error option) \<Rightarrow> world" where
  "example_world_with_history f =
     (example_world 5 1 f)\<lparr>firebase := (example_firebase 5 f)\<lparr>generations := example_history\<rparr>\<rparr>"

text \<open>A backend that answers every call with ok status and the given images.\<close>

definition answering :: "ApiGeneratedImageData list \<Rightarrow> http_request \<Rightarrow> error + http_response" where
  "answering imgs req = Inr (ok_response imgs)"

section \<open>The credit ledger\<close>

text \<open>
  C10. The store-level deduction with an amount that is zero or negative returns
  normally and leaves the store as it was: no request is issued, no document changes,
  no error is raised.
\<close>

theorem deductCreditsFromUser_nonpositive:
  "amountToDeduct \<le> 0 \<Longrightarrow> deductCreditsFromUser uid amountToDeduct fb = (Inr (), fb)"
  by (simp add: deductCreditsFromUser_def)

theorem deductCreditsFromUser_nonpositive_witness:
  "(- 3::int) \<le> 0 \<and>
   fst (deductCreditsFromUser ''u1'' (- 3) (example_firebase 5 no_faults)) = Inr () \<and>
   requests (snd (deductCreditsFromUser ''u1'' (- 3) (example_firebase 5 no_faults))) = [] \<and>
   map_option credits
     (users (snd (deductCreditsFromUser ''u1'' (- 3) (example_firebase 5 no_faults))) ''u1'')
     = Some 5"
  using deductCreditsFromUser_nonpositive [of "- 3" "''u1''" "example_firebase 5 no_faults"]
  by (simp add: example_firebase_def example_profile_def)

text \<open>
  C3. When no profile is loaded, or the loaded balance is below the amount,
  \<^verbatim>\<open>decrementCredits\<close> fails with the error "Insufficient credits or no user profile."
  and the world is the one it started from: the local balance is unchanged and the list
  of requests issued to the store has not grown.
\<close>

theorem decrementCredits_insufficient:
  assumes "userProfile (user_store w) = None \<or>
           (\<exists>p. userProfile (user_store w) = Some p \<and> credits p < amount)"
  shows "decrementCredits amount w = (Inl (Error ''Insufficient credits or no user profile.''), w)"
  using assms by (auto simp: decrementCredits_def decrementCredits_begin_def)

theorem decrementCredits_insufficient_witness:
  "fst (decrementCredits 4 (example_world 3 1 no_faults))
     = Inl (Error ''Insufficient credits or no user profile.'') \<and>
   map_option credits
     (userProfile (user_store (snd (decrementCredits 4 (example_world 3 1 no_faults)))))
     = Some 3 \<and>
   requests (firebase (snd (decrementCredits 4 (example_world 3 1 no_faults)))) = []"
  using decrementCredits_insufficient [of "example_world 3 1 no_faults" 4]
  by (simp add: example_world_def example_firebase_def example_profile_def)

text \<open>
  C2. With a profile \<open>p\<close> loaded and \<open>amount \<le> credits p\<close>, the part of
  \<^verbatim>\<open>decrementCredits\<close> that runs before the write leaves the local balance at
  \<open>credits p - amount\<close> and has issued nothing to the store yet. If the write is then
  rejected with \<open>e\<close>, the call fails with \<open>e\<close> and the local state is what it was before
  the call (balance \<open>credits p\<close> again); if the write succeeds, the call succeeds and the
  local balance stays at \<open>credits p - amount\<close>.
\<close>

theorem decrementCredits_optimistic_then_revert:
  assumes "userProfile (user_store w) = Some p" and "amount \<le> credits p"
  shows "\<exists>w1. decrementCredits_begin amount w = Inr (p, w1) \<and>
              userProfile (user_store w1) = Some (p\<lparr>credits := credits p - amount\<rparr>) \<and>
              firebase w1 = firebase w \<and>
              decrementCredits amount w = decrementCredits_settle p amount w1 \<and>
              (\<forall>e fb'. deductCreditsFromUser (profile_id p) amount (firebase w) = (Inl e, fb')
                 \<longrightarrow> decrementCredits amount w = (Inl e, w\<lparr>firebase := fb'\<rparr>)) \<and>
              (\<forall>fb'. deductCreditsFromUser (profile_id p) amount (firebase w) = (Inr (), fb')
                 \<longrightarrow> decrementCredits amount w = (Inr (), w1\<lparr>firebase := fb'\<rparr>))"
  using assms
  by (auto simp: decrementCredits_def decrementCredits_begin_def decrementCredits_settle_def
      set_user_def add_credits_def)

theorem decrementCredits_optimistic_then_revert_witness:
  "(2::int) \<le> credits (example_profile 5) \<and>
   (case decrementCredits_begin 2 (example_world 5 1 offline) of
      Inl e \<Rightarrow> False
    | Inr (cur, w1) \<Rightarrow>
        map_option credits (userProfile (user_store w1)) = Some 3 \<and>
        requests (firebase w1) = []) \<and>
   fst (decrementCredits 2 (example_world 5 1 offline))
     = Inl (FirebaseError ''unavailable'' ''The service is unavailable'') \<and>
   map_option credits
     (userProfile (user_store (snd (decrementCredits 2 (example_world 5 1 offline)))))
     = Some 5 \<and>
   fst (decrementCredits 2 (example_world 5 1 no_faults)) = Inr () \<and>
   map_option credits
     (userProfile (user_store (snd (decrementCredits 2 (example_world 5 1 no_faults)))))
     = Some 3"
proof -
  have loaded: "userProfile (user_store (example_world 5 1 f)) = Some (example_profile 5)" for f
    by (simp add: example_world_def)
  have enough: "(2::int) \<le> credits (example_profile 5)"
    by (simp add: example_profile_def)
  have rejected:
    "deductCreditsFromUser (profile_id (example_profile 5)) 2 (firebase (example_world 5 1 offline))
       = (Inl (FirebaseError ''unavailable'' ''The service is unavailable''),
          (example_firebase 5 offline)\<lparr>requests := [DocUpdate ''users'' ''u1'']\<rparr>)"
    by (simp add: deductCreditsFromUser_def users_update_increment_def issue_def
        example_world_def example_firebase_def example_profile_def offline_def)
  have accepted:
    "fst (deductCreditsFromUser (profile_id (example_profile 5)) 2
            (firebase (example_world 5 1 no_faults))) = Inr ()"
    by (simp add: deductCreditsFromUser_def users_update_increment_def issue_def
        example_world_def example_firebase_def example_profile_def no_faults_def)
  from decrementCredits_optimistic_then_revert [OF loaded enough, of offline]
  obtain w1 where
    b1: "decrementCredits_begin 2 (example_world 5 1 offline) = Inr (example_profile 5, w1)" and
    c1: "userProfile (user_store w1) = Some ((example_profile 5)\<lparr>credits := credits (example_profile 5) - 2\<rparr>)" and
    f1: "firebase w1 = firebase (example_world 5 1 offline)" and
    r1: "\<forall>e fb'. deductCreditsFromUser (profile_id (example_profile 5)) 2
                    (firebase (example_world 5 1 offline)) = (Inl e, fb')
           \<longrightarrow> decrementCredits 2 (example_world 5 1 offline)
                 = (Inl e, (example_world 5 1 offline)\<lparr>firebase := fb'\<rparr>)"
    by blast
  from decrementCredits_optimistic_then_revert [OF loaded enough, of no_faults]
  obtain w2 where
    c2: "userProfile (user_store w2) = Some ((example_profile 5)\<lparr>credits := credits (example_profile 5) - 2\<rparr>)" and
    r2: "\<forall>fb'. deductCreditsFromUser (profile_id (example_profile 5)) 2
                    (firebase (example_world 5 1 no_faults)) = (Inr (), fb')
           \<longrightarrow> decrementCredits 2 (example_world 5 1 no_faults) = (Inr (), w2\<lparr>firebase := fb'\<rparr>)"
    by blast
  have d1: "decrementCredits 2 (example_world 5 1 offline)
              = (Inl (FirebaseError ''unavailable'' ''The service is unavailable''),
                 (example_world 5 1 offline)
                   \<lparr>firebase := (example_firebase 5 offline)\<lparr>requests := [DocUpdate ''users'' ''u1'']\<rparr>\<rparr>)"
    using r1 rejected by blast
  obtain fb2 where
    "deductCreditsFromUser (profile_id (example_profile 5)) 2
       (firebase (example_world 5 1 no_faults)) = (Inr (), fb2)"
    using accepted by (metis prod.collapse)
  with r2 have d2: "decrementCredits 2 (example_world 5 1 no_faults) = (Inr (), w2\<lparr>firebase := fb2\<rparr>)"
    by blast
  show ?thesis
    using enough
    by (simp add: b1 c1 f1 d1 d2 c2 loaded) (simp add: example_world_def example_firebase_def example_profile_def)
qed

section \<open>The generation ledger\<close>

lemma generations_query_descending:
  assumes "fst (generations_query u fb) = Inr recs"
  shows "sorted_wrt (\<lambda>a b. created b \<le> created a) recs"
    and "\<forall>r\<in>set recs. userId r = u \<and> gen_createdAt r = Some (created r)"
proof -
  let ?docs = "filter (\<lambda>r. userId r = u \<and> gen_createdAt r \<noteq> None) (map snd (generations fb))"
  from assms have recs: "recs = rev (sort_key created ?docs)"
    by (auto simp: generations_query_def issue_def split: option.splits)
  have "sorted (map created (sort_key created ?docs))"
    by (rule sorted_sort_key)
  then have "sorted_wrt (\<lambda>a b. created a \<le> created b) (sort_key created ?docs)"
    by (simp add: sorted_map)
  then show "sorted_wrt (\<lambda>a b. created b \<le> created a) recs"
    unfolding recs by (simp add: sorted_wrt_rev)
  show "\<forall>r\<in>set recs. userId r = u \<and> gen_createdAt r = Some (created r)"
    unfolding recs by auto
qed

lemma getUserGenerations_eq_query:
  "fst (getUserGenerations u fb) = fst (generations_query u fb)"
  by (cases "generations_query u fb") (auto simp: getUserGenerations_def split: sum.splits)

text \<open>
  C7. Whenever the fetch of an owner's records returns a list, every record of the list
  belongs to that owner and carries a creation time, the creation times never increase
  along the list (each one is at least the next), and \<^verbatim>\<open>fetchUserGenerations\<close> makes that
  list the whole local collection.
\<close>

theorem fetchUserGenerations_descending:
  assumes "fst (getUserGenerations u (firebase w)) = Inr recs"
  shows "sorted_wrt (\<lambda>a b. created b \<le> created a) recs \<and>
         (\<forall>r\<in>set recs. userId r = u \<and> gen_createdAt r = Some (created r)) \<and>
         gen_generations (generations_store (fetchUserGenerations u w)) = recs"
proof -
  from assms have q: "fst (generations_query u (firebase w)) = Inr recs"
    by (simp add: getUserGenerations_eq_query)
  have "gen_generations (generations_store (fetchUserGenerations u w)) = recs"
    using assms
    by (cases "getUserGenerations u (firebase w)")
       (auto simp: fetchUserGenerations_def set_generations_def)
  with generations_query_descending [OF q] show ?thesis
    by blast
qed

theorem fetchUserGenerations_descending_witness:
  "map created
     (gen_generations
        (generations_store (fetchUserGenerations ''u1'' (example_world_with_history no_faults))))
     = [40, 30, 20, 20] \<and>
   map gen_id
     (gen_generations
        (generations_store (fetchUserGenerations ''u1'' (example_world_with_history no_faults))))
     = [Some ''c'', Some ''e'', Some ''d'', Some ''a'']"
proof -
  have "fst (getUserGenerations ''u1'' (firebase (example_world_with_history no_faults)))
          = Inr [example_record ''c'' ''u1'' 40, example_record ''e'' ''u1'' 30,
                 example_record ''d'' ''u1'' 20, example_record ''a'' ''u1'' 20]"
    by (simp add: getUserGenerations_def generations_query_def issue_def
        example_world_with_history_def example_history_def example_record_def no_faults_def
        example_firebase_def)
  from fetchUserGenerations_descending [OF this] show ?thesis
    by (simp add: example_record_def)
qed

section \<open>Deleting a stored file\<close>

text \<open>
  C8. For a storage path that is given (not empty): when the store rejects the delete with
  the code \<^verbatim>\<open>storage/object-not-found\<close>, \<^verbatim>\<open>deleteFileFromFirebase\<close> returns normally, as it
  does after a delete that succeeded; when the store rejects it with anything else, that
  error is thrown to the caller. In particular, deleting a path that is not stored, over a
  network that does not fail, returns normally and leaves the stored objects as they were.
\<close>

theorem deleteFileFromFirebase_not_found:
  assumes "storagePath \<noteq> []"
  shows "(\<forall>e. fst (object_delete storagePath fb) = Inl e \<longrightarrow>
            (if error_code e = Some ''storage/object-not-found''
             then fst (deleteFileFromFirebase storagePath fb) = Inr ()
             else fst (deleteFileFromFirebase storagePath fb) = Inl e)) \<and>
         (fst (object_delete storagePath fb) = Inr () \<longrightarrow>
            fst (deleteFileFromFirebase storagePath fb) = Inr ()) \<and>
         (faults fb (length (requests fb)) = None \<and> storagePath \<notin> objects fb \<longrightarrow>
            fst (deleteFileFromFirebase storagePath fb) = Inr () \<and>
            objects (snd (deleteFileFromFirebase storagePath fb)) = objects fb)"
  using assms
  by (cases "object_delete storagePath fb")
     (auto simp: deleteFileFromFirebase_def object_delete_def issue_def
           split: sum.splits option.splits if_splits)

theorem deleteFileFromFirebase_not_found_witness:
  "fst (deleteFileFromFirebase ''generations/image/u1/2_b.png'' (example_firebase 5 no_faults))
     = Inr () \<and>
   fst (deleteFileFromFirebase ''generations/image/u1/1_a.png'' (example_firebase 5 no_faults))
     = Inr () \<and>
   fst (deleteFileFromFirebase ''generations/image/u1/2_b.png'' (example_firebase 5 offline))
     = Inl (FirebaseError ''unavailable'' ''The service is unavailable'')"
proof -
  have given: "''generations/image/u1/2_b.png'' \<noteq> []" "''generations/image/u1/1_a.png'' \<noteq> []"
    by simp_all
  have missing:
    "fst (object_delete ''generations/image/u1/2_b.png'' (example_firebase 5 no_faults))
       = Inl (FirebaseError ''storage/object-not-found'' ''Object does not exist'')"
    by (simp add: object_delete_def issue_def example_firebase_def no_faults_def)
  have stored:
    "fst (object_delete ''generations/image/u1/1_a.png'' (example_firebase 5 no_faults)) = Inr ()"
    by (simp add: object_delete_def issue_def example_firebase_def no_faults_def)
  have down:
    "fst (object_delete ''generations/image/u1/2_b.png'' (example_firebase 5 offline))
       = Inl (FirebaseError ''unavailable'' ''The service is unavailable'')"
    by (simp add: object_delete_def issue_def example_firebase_def offline_def)
  show ?thesis
    using deleteFileFromFirebase_not_found [OF given(1), of "example_firebase 5 no_faults"]
      deleteFileFromFirebase_not_found [OF given(2), of "example_firebase 5 no_faults"]
      deleteFileFromFirebase_not_found [OF given(1), of "example_firebase 5 offline"]
      missing stored down
    by simp
qed

section \<open>Initializing a profile\<close>

text \<open>
  C9. Whenever \<^verbatim>\<open>initializeNewUserProfile\<close> succeeds, the store holds for the owner a
  profile with 10 credits and the tier "free" (with the owner id and the email given), the
  profile was written and then read back (the two requests issued are the write and the
  read of that document), and the loaded profile is the stored one. Over a network that
  does not fail it succeeds, for every owner id, email and name.
\<close>

theorem initializeNewUserProfile_defaults:
  "(fst (initializeNewUserProfile uid data_email data_name w) = Inr () \<longrightarrow>
      map_option credits
        (users (firebase (snd (initializeNewUserProfile uid data_email data_name w))) uid)
        = Some 10 \<and>
      map_option subscriptionStatus
        (users (firebase (snd (initializeNewUserProfile uid data_email data_name w))) uid)
        = Some free \<and>
      map_option profile_id
        (users (firebase (snd (initializeNewUserProfile uid data_email data_name w))) uid)
        = Some uid \<and>
      map_option email
        (users (firebase (snd (initializeNewUserProfile uid data_email data_name w))) uid)
        = Some data_email \<and>
      userProfile (user_store (snd (initializeNewUserProfile uid data_email data_name w)))
        = users (firebase (snd (initializeNewUserProfile uid data_email data_name w))) uid \<and>
      requests (firebase (snd (initializeNewUserProfile uid data_email data_name w)))
        = requests (firebase w) @ [DocSet ''users'' uid, DocGet ''users'' uid]) \<and>
   ((\<forall>n. faults (firebase w) n = None) \<longrightarrow>
      fst (initializeNewUserProfile uid data_email data_name w) = Inr ())"
  by (auto simp: initializeNewUserProfile_def createUserProfile_def getUserProfile_def
        users_set_def users_get_def issue_def set_user_def Let_def
      split: option.splits)

theorem initializeNewUserProfile_defaults_witness:
  "fst (initializeNewUserProfile ''u2'' (Some ''u2@example.org'') None
          (example_world 5 1 no_faults)) = Inr () \<and>
   map_option credits
     (userProfile (user_store (snd (initializeNewUserProfile ''u2'' (Some ''u2@example.org'') None
          (example_world 5 1 no_faults))))) = Some 10 \<and>
   map_option subscriptionStatus
     (userProfile (user_store (snd (initializeNewUserProfile ''u2'' (Some ''u2@example.org'') None
          (example_world 5 1 no_faults))))) = Some free"
proof -
  have "\<forall>n. faults (firebase (example_world 5 1 no_faults)) n = None"
    by (simp add: example_world_def example_firebase_def no_faults_def)
  with initializeNewUserProfile_defaults
         [of "''u2''" "Some ''u2@example.org''" None "example_world 5 1 no_faults"]
  show ?thesis
    by simp
qed

section \<open>What the two ledger calls of a handler change\<close>

lemma decrementCredits_keeps:
  "generations_store (snd (decrementCredits a w)) = generations_store w"
  "toasts (snd (decrementCredits a w)) = toasts w"
  "navigations (snd (decrementCredits a w)) = navigations w"
  "http_calls (snd (decrementCredits a w)) = http_calls w"
  "isLoading (snd (decrementCredits a w)) = isLoading w"
  "generatedImages (snd (decrementCredits a w)) = generatedImages w"
  "editedImages (snd (decrementCredits a w)) = editedImages w"
  "faults (firebase (snd (decrementCredits a w))) = faults (firebase w)"
  "generations (firebase (snd (decrementCredits a w))) = generations (firebase w)"
  "clock (firebase (snd (decrementCredits a w))) = clock (firebase w)"
  "auto_ids (firebase (snd (decrementCredits a w))) = auto_ids (firebase w)"
  "ids_used (firebase (snd (decrementCredits a w))) = ids_used (firebase w)"
  by (auto simp: decrementCredits_def decrementCredits_begin_def decrementCredits_settle_def
        deductCreditsFromUser_def users_update_increment_def issue_def set_user_def
      split: option.splits sum.splits prod.splits)

lemma decrementCredits_refused:
  assumes "userProfile (user_store w) = Some p" and "credits p < a"
  shows "snd (decrementCredits a w) = w"
  using assms by (simp add: decrementCredits_def decrementCredits_begin_def)

lemma decrementCredits_accepted:
  assumes "userProfile (user_store w) = Some p" and "a \<le> credits p"
    and "\<forall>n. faults (firebase w) n = None"
    and "users (firebase w) (profile_id p) = Some q"
  shows "userProfile (user_store (snd (decrementCredits a w))) = Some (p\<lparr>credits := credits p - a\<rparr>)"
    and "0 < a \<Longrightarrow> map_option credits (users (firebase (snd (decrementCredits a w))) (profile_id p))
                     = Some (credits q - a)"
    and "0 < a \<Longrightarrow> requests (firebase (snd (decrementCredits a w)))
                     = requests (firebase w) @ [DocUpdate ''users'' (profile_id p)]"
  using assms
  by (auto simp: decrementCredits_def decrementCredits_begin_def decrementCredits_settle_def
        deductCreditsFromUser_def users_update_increment_def issue_def set_user_def
        add_credits_def)

lemma fetchUserGenerations_keeps:
  "user_store (fetchUserGenerations u w) = user_store w"
  "toasts (fetchUserGenerations u w) = toasts w"
  "navigations (fetchUserGenerations u w) = navigations w"
  "http_calls (fetchUserGenerations u w) = http_calls w"
  "isLoading (fetchUserGenerations u w) = isLoading w"
  "generatedImages (fetchUserGenerations u w) = generatedImages w"
  "editedImages (fetchUserGenerations u w) = editedImages w"
  "users (firebase (fetchUserGenerations u w)) = users (firebase w)"
  "generations (firebase (fetchUserGenerations u w)) = generations (firebase w)"
  by (auto simp: fetchUserGenerations_def getUserGenerations_def generations_query_def
        issue_def set_generations_def Let_def
      split: option.splits sum.splits prod.splits)

lemma addGeneration_keeps:
  "user_store (snd (addGeneration d w)) = user_store w"
  "toasts (snd (addGeneration d w)) = toasts w"
  "navigations (snd (addGeneration d w)) = navigations w"
  "http_calls (snd (addGeneration d w)) = http_calls w"
  "isLoading (snd (addGeneration d w)) = isLoading w"
  "generatedImages (snd (addGeneration d w)) = generatedImages w"
  "editedImages (snd (addGeneration d w)) = editedImages w"
  "users (firebase (snd (addGeneration d w))) = users (firebase w)"
  by (auto simp: addGeneration_def addGenerationRecord_def generations_set_def issue_def
        set_generations_def Let_def fetchUserGenerations_keeps
      split: option.splits sum.splits prod.splits)

lemma map_of_doc_put: "map_of (doc_put k v ds) k = Some v"
  by (induction ds) auto

lemma has_undefined_stamped:
  "has_undefined (d\<lparr>gen_id := i, status := s, gen_createdAt := c, gen_updatedAt := u\<rparr>)
     = has_undefined d"
  by (simp add: has_undefined_def)

text \<open>The record \<^verbatim>\<open>addGenerationRecord\<close> writes for the data it is given.\<close>

lemma addGeneration_stored:
  assumes "\<forall>n. faults (firebase w) n = None" and "\<not> has_undefined d"
  shows "map_of (generations (firebase (snd (addGeneration d w))))
           (auto_ids (firebase w) (ids_used (firebase w)))
         = Some (d\<lparr>gen_id := Some (auto_ids (firebase w) (ids_used (firebase w))),
                   status := Some (case status d of None \<Rightarrow> completed | Some s \<Rightarrow> s),
                   gen_createdAt := Some (clock (firebase w)),
                   gen_updatedAt := Some (clock (firebase w))\<rparr>)"
  using assms
  by (simp add: addGeneration_def addGenerationRecord_def generations_set_def issue_def
        set_generations_def Let_def fetchUserGenerations_keeps map_of_doc_put
        has_undefined_stamped)

section \<open>The generation request flow\<close>

text \<open>
  C6. With a profile loaded whose balance is below unit cost times the requested number
  of images, \<^verbatim>\<open>handleTextToImageSubmit\<close> issues no call to the backend and no request to
  the store, leaves both the local and the stored state as they were, and (when the
  profile has an id) reports the insufficient balance.
\<close>

theorem handleTextToImageSubmit_insufficient:
  assumes "userProfile (user_store w) = Some p"
    and "credits p < IMAGE_GENERATION_COST * numImages w"
  shows "http_calls (handleTextToImageSubmit API_URL brain submittedPrompt w) = http_calls w \<and>
         user_store (handleTextToImageSubmit API_URL brain submittedPrompt w) = user_store w \<and>
         firebase (handleTextToImageSubmit API_URL brain submittedPrompt w) = firebase w \<and>
         generations_store (handleTextToImageSubmit API_URL brain submittedPrompt w)
           = generations_store w \<and>
         isLoading (handleTextToImageSubmit API_URL brain submittedPrompt w) = isLoading w \<and>
         (profile_id p \<noteq> [] \<longrightarrow>
            toasts (handleTextToImageSubmit API_URL brain submittedPrompt w)
              = toasts w @ [ToastError [Str ''Insufficient credits. You need '',
                                        Num (IMAGE_GENERATION_COST * numImages w),
                                        Str '' credit(s) for this action. You have '',
                                        Num (credits p), Str ''.'']])"
  using assms
  by (simp add: handleTextToImageSubmit_def checkCreditsAndProceed_def no_user_id_def
        toast_error_def navigate_def)

theorem handleTextToImageSubmit_insufficient_witness:
  "credits (example_profile 3) < IMAGE_GENERATION_COST * numImages (example_world 3 4 no_faults) \<and>
   http_calls (handleTextToImageSubmit ''https://api.example.org''
                 (answering (example_images 4)) ''a cat''
                 (example_world 3 4 no_faults)) = [] \<and>
   requests (firebase (handleTextToImageSubmit ''https://api.example.org''
                 (answering (example_images 4)) ''a cat''
                 (example_world 3 4 no_faults))) = [] \<and>
   map_option credits (userProfile (user_store (handleTextToImageSubmit ''https://api.example.org''
                 (answering (example_images 4)) ''a cat''
                 (example_world 3 4 no_faults)))) = Some 3 \<and>
   toasts (handleTextToImageSubmit ''https://api.example.org''
                 (answering (example_images 4)) ''a cat''
                 (example_world 3 4 no_faults))
     = [ToastError [Str ''Insufficient credits. You need '', Num 4,
                    Str '' credit(s) for this action. You have '', Num 3, Str ''.'']]"
proof -
  have loaded: "userProfile (user_store (example_world 3 4 no_faults)) = Some (example_profile 3)"
    by (simp add: example_world_def)
  have short: "credits (example_profile 3)
                 < IMAGE_GENERATION_COST * numImages (example_world 3 4 no_faults)"
    by (simp add: example_world_def example_profile_def IMAGE_GENERATION_COST_def)
  show ?thesis
    using short
      handleTextToImageSubmit_insufficient [OF loaded short, of "''https://api.example.org''"
        "answering (example_images 4)" "''a cat''"]
    by (simp add: example_world_def example_profile_def example_firebase_def
          IMAGE_GENERATION_COST_def)
qed

text \<open>
  C5. When the backend answers an edit with ok status and no edited images (an empty
  list, or no list), \<^verbatim>\<open>handleImageToImageSubmit\<close> leaves the user store, the generation
  store and the Firebase state as they were: no credits are decremented, locally or in
  the store, and no record is written. When the call was made at all (a file is uploaded,
  the prompt is not blank, a profile with an id and enough credits is loaded), the answer
  is reported as the error "No edited images returned by API.".
\<close>

theorem handleImageToImageSubmit_empty_result:
  assumes "\<forall>req. brain req = Inr r" and "ok r" and "json r = Inr b"
    and "edited_images b = None \<or> edited_images b = Some []"
  shows "user_store (handleImageToImageSubmit API_URL brain submittedEditPrompt w) = user_store w \<and>
         firebase (handleImageToImageSubmit API_URL brain submittedEditPrompt w) = firebase w \<and>
         generations_store (handleImageToImageSubmit API_URL brain submittedEditPrompt w)
           = generations_store w \<and>
         (\<forall>f p. uploadedImageFile w = Some f \<and> trim submittedEditPrompt \<noteq> [] \<and>
                userProfile (user_store w) = Some p \<and> profile_id p \<noteq> [] \<and>
                IMAGE_EDIT_COST \<le> credits p \<longrightarrow>
            toasts (handleImageToImageSubmit API_URL brain submittedEditPrompt w)
              = toasts w @ [ToastError [Str ''No edited images returned by API.'']] \<and>
            length (http_calls (handleImageToImageSubmit API_URL brain submittedEditPrompt w))
              = Suc (length (http_calls w)) \<and>
            \<not> isLoading (handleImageToImageSubmit API_URL brain submittedEditPrompt w))"
  using assms
  by (auto simp: handleImageToImageSubmit_def checkCreditsAndProceed_def no_user_id_def
        imageToImage_try_def call_brain_def toast_error_def navigate_def setIsLoading_def
        setEditedImages_def Let_def
      split: option.splits)

theorem handleImageToImageSubmit_empty_result_witness:
  "map_option credits (userProfile (user_store (handleImageToImageSubmit ''https://api.example.org''
      (answering []) ''make it blue'' (example_world 5 1 no_faults)))) = Some 5 \<and>
   requests (firebase (handleImageToImageSubmit ''https://api.example.org''
      (answering []) ''make it blue'' (example_world 5 1 no_faults))) = [] \<and>
   generations (firebase (handleImageToImageSubmit ''https://api.example.org''
      (answering []) ''make it blue'' (example_world 5 1 no_faults))) = [] \<and>
   toasts (handleImageToImageSubmit ''https://api.example.org''
      (answering []) ''make it blue'' (example_world 5 1 no_faults))
     = [ToastError [Str ''No edited images returned by API.'']]"
proof -
  have answer: "\<forall>req. (answering []) req
                       = (Inr (ok_response []) :: error + http_response)"
    by (simp add: answering_def)
  have status: "ok (ok_response [])"
    by (simp add: ok_response_def)
  have body: "json (ok_response [])
                = Inr \<lparr>detail = None, generated_images = Some [], edited_images = Some [],
                       original_image_path = Some ''/uploads/cat.png''\<rparr>"
    by (simp add: ok_response_def)
  have none: "edited_images \<lparr>detail = None, generated_images = Some [], edited_images = Some [],
                             original_image_path = Some ''/uploads/cat.png''\<rparr> = None \<or>
              edited_images \<lparr>detail = None, generated_images = Some [], edited_images = Some [],
                             original_image_path = Some ''/uploads/cat.png''\<rparr> = Some []"
    by simp
  have reached: "uploadedImageFile (example_world 5 1 no_faults) = Some ''cat.png'' \<and>
                 trim ''make it blue'' \<noteq> [] \<and>
                 userProfile (user_store (example_world 5 1 no_faults)) = Some (example_profile 5) \<and>
                 profile_id (example_profile 5) \<noteq> [] \<and>
                 IMAGE_EDIT_COST \<le> credits (example_profile 5)"
    by (simp add: example_world_def example_profile_def IMAGE_EDIT_COST_def trim_def
          js_whitespace_def)
  from handleImageToImageSubmit_empty_result [OF answer status body none,
         of "''https://api.example.org''" "''make it blue''" "example_world 5 1 no_faults"]
    reached
  show ?thesis
    by (simp add: example_world_def example_profile_def example_firebase_def)
qed

section \<open>What a successful generation is billed\<close>

lemma handleTextToImageSubmit_success:
  assumes "userProfile (user_store w) = Some p" and "profile_id p \<noteq> []"
    and "IMAGE_GENERATION_COST * numImages w \<le> credits p"
    and "trim submittedPrompt \<noteq> []"
    and "\<forall>req. brain req = Inr r" and "ok r" and "json r = Inr b"
    and "generated_images b = Some imgs" and "imgs \<noteq> []"
  shows "handleTextToImageSubmit API_URL brain submittedPrompt w =
           setIsLoading False
             (toast_success [Num (int (length imgs)), Str '' image(s) generated!'']
                (snd (addGeneration
                        \<lparr>gen_id = None,
                         userId = profile_id p,
                         gen_type = ''text-to-image'',
                         prompt = submittedPrompt,
                         negativePrompt = or_undefined (negativePromptInput w),
                         gen_settings =
                           TextToImageSettings (aspectRatio w) (numImages w) (seedInput w),
                         imageUrls = map src (map (to_display API_URL submittedPrompt) imgs),
                         apiPaths = map apiPath (map (to_display API_URL submittedPrompt) imgs),
                         cost = IMAGE_GENERATION_COST * numImages w,
                         status = None,
                         gen_createdAt = None,
                         gen_updatedAt = None\<rparr>
                        (snd (decrementCredits (IMAGE_GENERATION_COST * numImages w)
                                (setGeneratedImages (map (to_display API_URL submittedPrompt) imgs)
                                   (snd (call_brain brain
                                           (GenerateImage submittedPrompt
                                              (or_undefined (negativePromptInput w)) (profile_id p)
                                              (numImages w) (aspectRatio w)
                                              (if seedInput w = 0 then None
                                               else Some (seedInput w)))
                                           (setGeneratedImages [] (setIsLoading True w))))))))))"
  using assms
  by (simp add: handleTextToImageSubmit_def checkCreditsAndProceed_def textToImage_try_def
        call_brain_def setIsLoading_def setGeneratedImages_def Let_def)

lemma page_setters_keep:
  "user_store (setIsLoading x w) = user_store w"
  "firebase (setIsLoading x w) = firebase w"
  "toasts (setIsLoading x w) = toasts w"
  "user_store (setGeneratedImages xs w) = user_store w"
  "firebase (setGeneratedImages xs w) = firebase w"
  "toasts (setGeneratedImages xs w) = toasts w"
  "user_store (toast_success m w) = user_store w"
  "firebase (toast_success m w) = firebase w"
  "toasts (toast_success m w) = toasts w @ [ToastSuccess m]"
  "user_store (snd (call_brain brain req w)) = user_store w"
  "firebase (snd (call_brain brain req w)) = firebase w"
  "toasts (snd (call_brain brain req w)) = toasts w"
  by (simp_all add: setIsLoading_def setGeneratedImages_def toast_success_def call_brain_def)

lemma displayed_paths_defined: "None \<notin> set (map apiPath (map (to_display API_URL a) imgs))"
  by (induction imgs) (simp_all add: to_display_def)

text \<open>
  What the two ledger calls of a successful action leave, for any page state \<open>w\<close> they
  start from: the local balance, the stored balance, and, for data the store accepts,
  the record stored under the fresh id.
\<close>

lemma billed:
  assumes "userProfile (user_store w) = Some p" and "a \<le> credits p"
    and "\<forall>n. faults (firebase w) n = None"
    and "users (firebase w) (profile_id p) = Some q"
  shows "userProfile (user_store (snd (addGeneration d (snd (decrementCredits a w)))))
           = Some (p\<lparr>credits := credits p - a\<rparr>)"
    and "0 < a \<Longrightarrow>
           map_option credits
             (users (firebase (snd (addGeneration d (snd (decrementCredits a w))))) (profile_id p))
           = Some (credits q - a)"
    and "\<not> has_undefined d \<Longrightarrow>
           map_option cost
             (map_of (generations (firebase (snd (addGeneration d (snd (decrementCredits a w))))))
                (auto_ids (firebase w) (ids_used (firebase w))))
           = Some (cost d)"
    and "toasts (snd (addGeneration d (snd (decrementCredits a w)))) = toasts w"
proof -
  let ?w' = "snd (decrementCredits a w)"
  show "userProfile (user_store (snd (addGeneration d ?w'))) = Some (p\<lparr>credits := credits p - a\<rparr>)"
    using decrementCredits_accepted(1) [OF assms] by (simp add: addGeneration_keeps)
  show "map_option credits (users (firebase (snd (addGeneration d ?w'))) (profile_id p))
          = Some (credits q - a)" if "0 < a"
    using decrementCredits_accepted(2) [OF assms that] by (simp add: addGeneration_keeps)
  have quiet: "\<forall>n. faults (firebase ?w') n = None"
    using assms(3) by (simp add: decrementCredits_keeps)
  show "map_option cost
          (map_of (generations (firebase (snd (addGeneration d ?w'))))
             (auto_ids (firebase w) (ids_used (firebase w))))
          = Some (cost d)" if "\<not> has_undefined d"
    using addGeneration_stored [OF quiet that] by (simp add: decrementCredits_keeps)
  show "toasts (snd (addGeneration d ?w')) = toasts w"
    by (simp add: addGeneration_keeps decrementCredits_keeps)
qed

text \<open>
  C1, as the code has it. For a loaded profile with an id and a balance of at least unit
  cost times the requested number of images, a prompt that is not blank, an ok response
  with a list of images that is not empty, and a store that accepts the deduction:
  the local balance drops by unit cost times the requested number of images, whatever
  the number of images returned, and so does the stored balance. When a negative prompt
  was entered, the record written has that same amount as its cost. In the scenario
  (5 credits, one image requested, two returned) the balance becomes 4, and the cost of
  a record that is written is 1.
\<close>

theorem handleTextToImageSubmit_bills_requested:
  assumes "userProfile (user_store w) = Some p" and "profile_id p \<noteq> []"
    and "IMAGE_GENERATION_COST * numImages w \<le> credits p"
    and "trim submittedPrompt \<noteq> []"
    and "\<forall>req. brain req = Inr r" and "ok r" and "json r = Inr b"
    and "generated_images b = Some imgs" and "imgs \<noteq> []"
    and "\<forall>n. faults (firebase w) n = None"
    and "users (firebase w) (profile_id p) = Some q"
  shows "userProfile (user_store (handleTextToImageSubmit API_URL brain submittedPrompt w))
           = Some (p\<lparr>credits := credits p - IMAGE_GENERATION_COST * numImages w\<rparr>) \<and>
         (0 < numImages w \<longrightarrow>
            map_option credits
              (users (firebase (handleTextToImageSubmit API_URL brain submittedPrompt w))
                 (profile_id p))
            = Some (credits q - IMAGE_GENERATION_COST * numImages w)) \<and>
         (negativePromptInput w \<noteq> [] \<longrightarrow>
            map_option cost
              (map_of (generations
                         (firebase (handleTextToImageSubmit API_URL brain submittedPrompt w)))
                 (auto_ids (firebase w) (ids_used (firebase w))))
            = Some (IMAGE_GENERATION_COST * numImages w)) \<and>
         toasts (handleTextToImageSubmit API_URL brain submittedPrompt w)
           = toasts w @ [ToastSuccess [Num (int (length imgs)), Str '' image(s) generated!'']]"
proof -
  define w3 where
    "w3 = setGeneratedImages (map (to_display API_URL submittedPrompt) imgs)
            (snd (call_brain brain
                    (GenerateImage submittedPrompt (or_undefined (negativePromptInput w))
                       (profile_id p) (numImages w) (aspectRatio w)
                       (if seedInput w = 0 then None else Some (seedInput w)))
                    (setGeneratedImages [] (setIsLoading True w))))"
  define d where
    "d = \<lparr>gen_id = None,
          userId = profile_id p,
          gen_type = ''text-to-image'',
          prompt = submittedPrompt,
          negativePrompt = or_undefined (negativePromptInput w),
          gen_settings = TextToImageSettings (aspectRatio w) (numImages w) (seedInput w),
          imageUrls = map src (map (to_display API_URL submittedPrompt) imgs),
          apiPaths = map apiPath (map (to_display API_URL submittedPrompt) imgs),
          cost = IMAGE_GENERATION_COST * numImages w,
          status = None,
          gen_createdAt = None,
          gen_updatedAt = None\<rparr>"
  define a where "a = IMAGE_GENERATION_COST * numImages w"
  have run: "handleTextToImageSubmit API_URL brain submittedPrompt w =
               setIsLoading False
                 (toast_success [Num (int (length imgs)), Str '' image(s) generated!'']
                    (snd (addGeneration d (snd (decrementCredits a w3)))))"
    unfolding w3_def d_def a_def by (rule handleTextToImageSubmit_success [OF assms(1-9)])
  have same: "firebase w3 = firebase w" "toasts w3 = toasts w" "user_store w3 = user_store w"
    by (simp_all add: w3_def page_setters_keep)
  have loaded: "userProfile (user_store w3) = Some p"
    using assms(1) by (simp add: same)
  have enough: "a \<le> credits p"
    using assms(3) by (simp add: a_def)
  have quiet: "\<forall>n. faults (firebase w3) n = None"
    using assms(10) by (simp add: same)
  have stored: "users (firebase w3) (profile_id p) = Some q"
    using assms(11) by (simp add: same)
  have positive: "0 < a" if "0 < numImages w"
    using that by (simp add: a_def IMAGE_GENERATION_COST_def)
  have price: "cost d = a"
    by (simp add: d_def a_def)
  have accepted: "\<not> has_undefined d" if "negativePromptInput w \<noteq> []"
    using that displayed_paths_defined [of API_URL submittedPrompt imgs]
    by (simp add: d_def has_undefined_def or_undefined_def)
  note facts = billed [OF loaded enough quiet stored, of d]
  have "userProfile (user_store (handleTextToImageSubmit API_URL brain submittedPrompt w))
          = Some (p\<lparr>credits := credits p - a\<rparr>)"
    unfolding run using facts(1) by (simp only: page_setters_keep)
  moreover have "map_option credits
                   (users (firebase (handleTextToImageSubmit API_URL brain submittedPrompt w))
                      (profile_id p))
                 = Some (credits q - a)" if "0 < numImages w"
    unfolding run using facts(2) [OF positive [OF that]] by (simp only: page_setters_keep)
  moreover have "map_option cost
                   (map_of (generations
                              (firebase (handleTextToImageSubmit API_URL brain submittedPrompt w)))
                      (auto_ids (firebase w) (ids_used (firebase w))))
                 = Some a" if "negativePromptInput w \<noteq> []"
    unfolding run using facts(3) [OF accepted [OF that]]
    by (simp only: page_setters_keep same price)
  moreover have "toasts (handleTextToImageSubmit API_URL brain submittedPrompt w)
                 = toasts w @ [ToastSuccess [Num (int (length imgs)), Str '' image(s) generated!'']]"
    unfolding run using facts(4) by (simp only: page_setters_keep same)
  ultimately show ?thesis
    unfolding a_def by blast
qed

theorem handleTextToImageSubmit_bills_requested_witness:
  "map_option credits
     (userProfile (user_store (handleTextToImageSubmit ''https://api.example.org''
        (answering (example_images 2)) ''a cat'' (example_world 5 1 no_faults))))
     = Some 4 \<and>
   map_option credits
     (users (firebase (handleTextToImageSubmit ''https://api.example.org''
        (answering (example_images 2)) ''a cat'' (example_world 5 1 no_faults)))
        ''u1'')
     = Some 4 \<and>
   negativePromptInput (example_world_with_negative_prompt 5 1 no_faults) \<noteq> [] \<and>
   map_option credits
     (userProfile (user_store (handleTextToImageSubmit ''https://api.example.org''
        (answering (example_images 2)) ''a cat''
        (example_world_with_negative_prompt 5 1 no_faults))))
     = Some 4 \<and>
   map_option cost
     (map_of (generations (firebase (handleTextToImageSubmit ''https://api.example.org''
        (answering (example_images 2)) ''a cat''
        (example_world_with_negative_prompt 5 1 no_faults))))
        ''g'')
     = Some 1"
proof -
  have loaded:
    "userProfile (user_store (example_world 5 1 no_faults)) = Some (example_profile 5)"
    "userProfile (user_store (example_world_with_negative_prompt 5 1 no_faults))
       = Some (example_profile 5)"
    by (simp_all add: example_world_with_negative_prompt_def example_world_def)
  have named: "profile_id (example_profile 5) \<noteq> []"
    by (simp add: example_profile_def)
  have enough:
    "IMAGE_GENERATION_COST * numImages (example_world 5 1 no_faults)
       \<le> credits (example_profile 5)"
    "IMAGE_GENERATION_COST * numImages (example_world_with_negative_prompt 5 1 no_faults)
       \<le> credits (example_profile 5)"
    by (simp_all add: example_world_with_negative_prompt_def example_world_def
          example_profile_def IMAGE_GENERATION_COST_def)
  have typed: "trim ''a cat'' \<noteq> []"
    by (simp add: trim_def js_whitespace_def)
  have answer: "\<forall>req. answering (example_images 2) req = Inr (ok_response (example_images 2))"
    by (simp add: answering_def)
  have status: "ok (ok_response (example_images 2))"
    by (simp add: ok_response_def)
  have body: "json (ok_response (example_images 2))
                = Inr \<lparr>detail = None, generated_images = Some (example_images 2),
                       edited_images = Some (example_images 2),
                       original_image_path = Some ''/uploads/cat.png''\<rparr>"
    by (simp add: ok_response_def)
  have images: "generated_images \<lparr>detail = None, generated_images = Some (example_images 2),
                   edited_images = Some (example_images 2),
                   original_image_path = Some ''/uploads/cat.png''\<rparr>
                = Some (example_images 2)"
    by simp
  have two: "example_images 2 \<noteq> []"
    by (simp add: example_images_def)
  have quiet:
    "\<forall>n. faults (firebase (example_world 5 1 no_faults)) n = None"
    "\<forall>n. faults (firebase (example_world_with_negative_prompt 5 1 no_faults)) n = None"
    by (simp_all add: example_world_with_negative_prompt_def example_world_def
          example_firebase_def no_faults_def)
  have stored:
    "users (firebase (example_world 5 1 no_faults)) (profile_id (example_profile 5))
       = Some (example_profile 5)"
    "users (firebase (example_world_with_negative_prompt 5 1 no_faults))
       (profile_id (example_profile 5)) = Some (example_profile 5)"
    by (simp_all add: example_world_with_negative_prompt_def example_world_def
          example_firebase_def example_profile_def)
  have entered: "negativePromptInput (example_world_with_negative_prompt 5 1 no_faults) \<noteq> []"
    by (simp add: example_world_with_negative_prompt_def)
  from handleTextToImageSubmit_bills_requested
         [OF loaded(1) named enough(1) typed answer status body images two quiet(1) stored(1),
          of "''https://api.example.org''"]
       handleTextToImageSubmit_bills_requested
         [OF loaded(2) named enough(2) typed answer status body images two quiet(2) stored(2),
          of "''https://api.example.org''"]
       entered
  show ?thesis
    by (simp add: example_world_with_negative_prompt_def example_world_def example_firebase_def
          example_profile_def IMAGE_GENERATION_COST_def)
qed

text \<open>
  C1 as the specification states it fails in its own scenario. With 5 credits, one image
  requested and two returned, the local balance is 4, not 3, with or without a negative
  prompt; and when a negative prompt was entered, so that the record is written, the
  one record has the cost 1, not 2.
\<close>

theorem scenario_B_counterexample:
  "map_option credits
     (userProfile (user_store (handleTextToImageSubmit ''https://api.example.org''
        (answering (example_images 2)) ''a cat'' (example_world 5 1 no_faults))))
     = Some 4 \<and>
   map_option credits
     (userProfile (user_store (handleTextToImageSubmit ''https://api.example.org''
        (answering (example_images 2)) ''a cat'' (example_world 5 1 no_faults))))
     \<noteq> Some (5 - 1 * 2) \<and>
   map_option credits
     (userProfile (user_store (handleTextToImageSubmit ''https://api.example.org''
        (answering (example_images 2)) ''a cat''
        (example_world_with_negative_prompt 5 1 no_faults))))
     = Some 4 \<and>
   map (cost \<circ> snd)
     (generations (firebase (handleTextToImageSubmit ''https://api.example.org''
        (answering (example_images 2)) ''a cat''
        (example_world_with_negative_prompt 5 1 no_faults))))
     = [1] \<and>
   map (cost \<circ> snd)
     (generations (firebase (handleTextToImageSubmit ''https://api.example.org''
        (answering (example_images 2)) ''a cat''
        (example_world_with_negative_prompt 5 1 no_faults))))
     \<noteq> [2] \<and>
   map apiPath
     (generatedImages (handleTextToImageSubmit ''https://api.example.org''
        (answering (example_images 2)) ''a cat''
        (example_world_with_negative_prompt 5 1 no_faults)))
     = [Some ''p'', Some ''pp'']"
  by code_simp

section \<open>What a successful edit is billed\<close>

text \<open>
  C4 does not hold of the code. The pre-check of an edit asks for one unit cost, the
  decrement asks for the unit cost times the number of images returned, and the
  decrement is not awaited. With 1 credit, a negative prompt entered and two edited
  images returned with ok status (and the path of the original image), the action
  succeeds: the success notification is shown and the record is written with the cost
  \<open>IMAGE_EDIT_COST * 2\<close>. But \<^verbatim>\<open>decrementCredits\<close> refuses the 2 credits, and its
  rejection reaches no handler: the local and the stored balance are still 1, and the
  only requests issued to the store are the write of the record and the fetch after it.
\<close>

theorem edit_two_images_one_credit:
  "toasts (handleImageToImageSubmit ''https://api.example.org''
        (answering (example_images 2)) ''make it blue''
        (example_world_with_negative_prompt 1 1 no_faults))
     = [ToastSuccess [Num 2, Str '' image(s) edited successfully!'']] \<and>
   map (cost \<circ> snd)
     (generations (firebase (handleImageToImageSubmit ''https://api.example.org''
        (answering (example_images 2)) ''make it blue''
        (example_world_with_negative_prompt 1 1 no_faults))))
     = [IMAGE_EDIT_COST * 2] \<and>
   map_option credits
     (userProfile (user_store (handleImageToImageSubmit ''https://api.example.org''
        (answering (example_images 2)) ''make it blue''
        (example_world_with_negative_prompt 1 1 no_faults))))
     = Some 1 \<and>
   map_option credits
     (users (firebase (handleImageToImageSubmit ''https://api.example.org''
        (answering (example_images 2)) ''make it blue''
        (example_world_with_negative_prompt 1 1 no_faults)))
        ''u1'')
     = Some 1 \<and>
   requests (firebase (handleImageToImageSubmit ''https://api.example.org''
        (answering (example_images 2)) ''make it blue''
        (example_world_with_negative_prompt 1 1 no_faults)))
     = [DocSet ''generations'' ''g'', Query ''generations'' ''u1'']"
  by code_simp

end
